theory Spec2Isabelle
  imports Complex_Main
begin

section \<open>Python values\<close>

text \<open>
  A decoded JSON message is a dynamically typed Python value. Numbers are the integers
  (floats are left out of the model); an object is its list of items, read with
  \<open>map_of\<close>. A string is a list of characters; the Polish texts of the source are written
  as their UTF-8 bytes. Timestamps (\<open>time.time()\<close>, \<open>datetime.now()\<close>) and the two
  configured durations are seconds on the real line, and the clock is read once for each
  handled message.
\<close>

datatype json =
    JNull
  | JBool bool
  | JNum int
  | JStr string
  | JArr "json list"
  | JObj "(string \<times> json) list"

datatype error = AttributeError | TypeError | DatabaseError

text \<open>Truth value of a Python object, as \<open>if x\<close>, \<open>x or y\<close> and \<open>bool(x)\<close> read it.\<close>

fun truthy :: "json \<Rightarrow> bool" where
  "truthy JNull = False"
| "truthy (JBool b) = b"
| "truthy (JNum n) = (n \<noteq> 0)"
| "truthy (JStr s) = (s \<noteq> [])"
| "truthy (JArr xs) = (xs \<noteq> [])"
| "truthy (JObj kvs) = (kvs \<noteq> [])"

definition py_or :: "json \<Rightarrow> json \<Rightarrow> json" where
  "py_or a b = (if truthy a then a else b)"

text \<open>\<open>d.get(k)\<close> on a dict: the value, or \<open>None\<close>.\<close>

definition get :: "(string \<times> json) list \<Rightarrow> string \<Rightarrow> json" where
  "get kvs k = (case map_of kvs k of Some v \<Rightarrow> v | None \<Rightarrow> JNull)"

text \<open>
  Lists and dicts are unhashable: using one as a dictionary key raises \<open>TypeError\<close>.
  \<open>True\<close> and \<open>False\<close> are the keys \<open>1\<close> and \<open>0\<close>.
\<close>

fun hashable :: "json \<Rightarrow> bool" where
  "hashable (JArr xs) = False"
| "hashable (JObj kvs) = False"
| "hashable v = True"

fun dict_key :: "json \<Rightarrow> json" where
  "dict_key (JBool b) = JNum (if b then 1 else 0)"
| "dict_key v = v"

text \<open>
  \<open>str.lower()\<close>. Only the letters A to Z are mapped; every other character is kept. The
  result is only ever compared with the pure ASCII message kinds, and Python's \<open>lower\<close>
  maps no character outside ASCII to a letter that occurs in one of them, so membership
  in the kinds is decided as Python decides it.
\<close>

definition lower_char :: "char \<Rightarrow> char" where
  "lower_char c =
     (if (65::nat) \<le> of_char c \<and> of_char c \<le> (90::nat) then char_of (of_char c + (32::nat)) else c)"

definition lower :: "string \<Rightarrow> string" where
  "lower s = map lower_char s"

text \<open>
  Two library functions are parameters of the model: \<open>str()\<close> of a value that is not
  a string, and \<open>json.dumps\<close>. An f-string field \<open>{x}\<close> is \<open>x\<close> itself for a string.
\<close>

record pylib =
  str_of :: "json \<Rightarrow> string"
  dumps :: "json \<Rightarrow> string"

definition fmt :: "pylib \<Rightarrow> json \<Rightarrow> string" where
  "fmt L v = (case v of JStr s \<Rightarrow> s | _ \<Rightarrow> str_of L v)"

section \<open>Notifier\<close>

text \<open>
  \<open>last'\<close> (the dict \<open>_last\<close>, or \<open>last\<close> in the headless monitor) maps a key to the
  time of its last notification. \<open>notify_calls\<close> lists the
  calls made to \<open>notification.notify\<close>; \<open>backend_raises\<close> says whether that call raises,
  and \<open>printed\<close> is what the headless monitor prints when it does.
\<close>

record notifier =
  cooldown :: real
  last' :: "string \<rightharpoonup> real"
  notify_calls :: "(string \<times> json) list"
  backend_raises :: bool
  printed :: "(string \<times> json) list"

text \<open>The test of \<open>Notifier.show\<close> that returns early. An empty or absent key is no key.\<close>

definition suppressed :: "notifier \<Rightarrow> string option \<Rightarrow> real \<Rightarrow> bool" where
  "suppressed n key t =
     (case key of
        None \<Rightarrow> False
      | Some k \<Rightarrow> k \<noteq> [] \<and> (case last' n k of None \<Rightarrow> False | Some t0 \<Rightarrow> t - t0 < cooldown n))"

definition remember :: "notifier \<Rightarrow> string option \<Rightarrow> real \<Rightarrow> notifier" where
  "remember n key t =
     (case key of
        None \<Rightarrow> n
      | Some k \<Rightarrow> if k \<noteq> [] then n\<lparr>last' := (last' n)(k \<mapsto> t)\<rparr> else n)"

text \<open>\<open>Notifier.show\<close> of the desktop program: a failure of the backend is passed over.\<close>

definition show_gui :: "notifier \<Rightarrow> string \<Rightarrow> json \<Rightarrow> string option \<Rightarrow> real \<Rightarrow> notifier" where
  "show_gui n title msg key t =
     (if suppressed n key t then n
      else (remember n key t)\<lparr>notify_calls := notify_calls n @ [(title, msg)]\<rparr>)"

text \<open>\<open>Notifier.show\<close> of the headless monitor: a failure of the backend is printed.\<close>

definition show_ws :: "notifier \<Rightarrow> string \<Rightarrow> json \<Rightarrow> string option \<Rightarrow> real \<Rightarrow> notifier" where
  "show_ws n title msg key t =
     (if suppressed n key t then n
      else
        (let n1 = (remember n key t)\<lparr>notify_calls := notify_calls n @ [(title, msg)]\<rparr>
         in if backend_raises n1 then n1\<lparr>printed := printed n1 @ [(title, msg)]\<rparr> else n1))"

text \<open>Whether a call of \<open>show\<close> reached the backend.\<close>

definition fired :: "notifier \<Rightarrow> notifier \<Rightarrow> bool" where
  "fired n n' = (length (notify_calls n') = Suc (length (notify_calls n)))"

section \<open>Incident log\<close>

text \<open>
  A row of the \<open>incidents\<close> table. \<open>accepts\<close> stands for the database: whether
  \<open>sqlite3\<close> connects, inserts and commits the row without raising.
\<close>

record incident =
  ts :: real
  source :: json
  type' :: string
  title :: json
  details :: json

record incident_log =
  rows :: "incident list"
  accepts :: "incident \<Rightarrow> bool"

definition add :: "incident_log \<Rightarrow> real \<Rightarrow> json \<Rightarrow> string \<Rightarrow> json \<Rightarrow> json \<Rightarrow> error option \<times> incident_log" where
  "add lg t src ty ttl det =
     (let row = \<lparr>ts = t, source = src, type' = ty, title = ttl, details = det\<rparr>
      in if accepts lg row then (None, lg\<lparr>rows := rows lg @ [row]\<rparr>) else (Some DatabaseError, lg))"

section \<open>Shared pieces of the two monitors\<close>

text \<open>
  \<open>EufyMonitor\<close> (headless) keeps the configured grace period, a notifier, the incident
  log and \<open>device_last_ok\<close>. \<open>MonitorLogic\<close> (desktop) has the same and, besides, the
  device table and the queue of messages for the window.
\<close>

record eufy_monitor =
  offline_grace_seconds :: real
  notifier :: notifier
  log_db :: incident_log
  device_last_ok :: "json \<rightharpoonup> real"

text \<open>An entry of \<open>MonitorLogic.devices\<close>; \<open>online\<close> is \<open>None\<close>, \<open>True\<close> or \<open>False\<close>.\<close>

record device =
  name :: json
  online :: "bool option"
  last_event :: "string option"

datatype gui_msg =
    Conn json
  | DeviceUpdate json json "bool option" "string option"
  | LogLine real string

record monitor_logic = eufy_monitor +
  devices :: "json \<rightharpoonup> device"
  gui :: "gui_msg list"

text \<open>Statements in sequence: an exception ends the sequence and keeps the state reached.\<close>

fun and_then :: "error option \<times> 's \<Rightarrow> ('s \<Rightarrow> error option \<times> 's) \<Rightarrow> error option \<times> 's" where
  "and_then (None, s) f = f s"
| "and_then (Some e, s) f = (Some e, s)"

definition log_add ::
  "'m eufy_monitor_scheme \<Rightarrow> real \<Rightarrow> json \<Rightarrow> string \<Rightarrow> json \<Rightarrow> json \<Rightarrow> error option \<times> 'm eufy_monitor_scheme" where
  "log_add s t src ty ttl det =
     (case add (log_db s) t src ty ttl det of (e, lg) \<Rightarrow> (e, s\<lparr>log_db := lg\<rparr>))"

definition gui_sink :: "monitor_logic \<Rightarrow> gui_msg \<Rightarrow> monitor_logic" where
  "gui_sink s m = s\<lparr>gui := gui s @ [m]\<rparr>"

definition title_offline :: string where
  "title_offline = ''Eufy: urz'' @ [CHR 0xC4, CHR 0x85] @ ''dzenie offline''"

definition title_recovered :: string where
  "title_recovered =
     ''Eufy: urz'' @ [CHR 0xC4, CHR 0x85] @ ''dzenie wr'' @ [CHR 0xC3, CHR 0xB3] @ ''ci'' @ [CHR 0xC5, CHR 0x82] @ ''o''"

definition title_error :: string where
  "title_error = ''Eufy: b'' @ [CHR 0xC5, CHR 0x82, CHR 0xC4, CHR 0x85] @ ''d''"

definition em_dash :: string where
  "em_dash = [CHR 0xE2, CHR 0x80, CHR 0x94]"

text \<open>\<open>v in ("online", "connected")\<close>.\<close>

definition in_online_states :: "json \<Rightarrow> bool" where
  "in_online_states v = (v = JStr ''online'' \<or> v = JStr ''connected'')"

text \<open>
  The online heuristic of a device update:
  \<open>props.get("online") if isinstance(props.get("online"), bool) else props.get("state") in (...)\<close>.
\<close>

definition online_hint :: "(string \<times> json) list \<Rightarrow> bool" where
  "online_hint props =
     (case get props ''online'' of JBool b \<Rightarrow> b | _ \<Rightarrow> in_online_states (get props ''state''))"

text \<open>The serial, name and properties a device update is read for (both monitors).\<close>

definition upd_serial :: "(string \<times> json) list \<Rightarrow> json" where
  "upd_serial evt = py_or (get evt ''device_sn'') (py_or (get evt ''serial_number'') (get evt ''device_id''))"

definition upd_name :: "(string \<times> json) list \<Rightarrow> json" where
  "upd_name evt = py_or (get evt ''device_name'') (py_or (get evt ''name'') (upd_serial evt))"

definition upd_props :: "(string \<times> json) list \<Rightarrow> json" where
  "upd_props evt = py_or (get evt ''properties'') (py_or (get evt ''data'') (JObj []))"

text \<open>Name and action of an alert, source of an error (both monitors).\<close>

definition alert_name :: "(string \<times> json) list \<Rightarrow> json" where
  "alert_name evt = py_or (get evt ''device_name'') (py_or (get evt ''station_name'') (JStr ''Eufy''))"

definition alert_action :: "(string \<times> json) list \<Rightarrow> json" where
  "alert_action evt =
     py_or (get evt ''event_type'') (py_or (get evt ''name'') (py_or (get evt ''action'') (JStr ''event'')))"

definition error_msg :: "pylib \<Rightarrow> (string \<times> json) list \<Rightarrow> json" where
  "error_msg L evt = py_or (get evt ''message'') (JStr (str_of L (JObj evt)))"

section \<open>MonitorLogic: the desktop program\<close>

text \<open>
  \<open>_maybe_flag_offline(sn, name)\<close>. A stored \<open>datetime\<close> is always true, so
  \<open>if not last_ok\<close> returns for a missing entry only. When the serial has no entry in
  \<open>devices\<close>, \<open>dev\<close> is a fresh empty dict and the table is left as it is.
\<close>

definition maybe_flag_offline :: "pylib \<Rightarrow> monitor_logic \<Rightarrow> json \<Rightarrow> json \<Rightarrow> real \<Rightarrow> error option \<times> monitor_logic" where
  "maybe_flag_offline L s sn nm t =
     (if truthy sn then
        (if hashable sn then
           (case device_last_ok s (dict_key sn) of
              None \<Rightarrow> (None, s)
            | Some last_ok \<Rightarrow>
                if t - last_ok > offline_grace_seconds s then
                  (let dev = devices s (dict_key sn) in
                   if (case dev of None \<Rightarrow> None | Some d \<Rightarrow> online d) \<noteq> Some False then
                     (let s1 = (case dev of
                                  None \<Rightarrow> s
                                | Some d \<Rightarrow> s\<lparr>devices := (devices s)(dict_key sn \<mapsto> d\<lparr>online := Some False\<rparr>)\<rparr>);
                          s2 = gui_sink s1
                                 (DeviceUpdate sn nm (Some False)
                                    (case dev of None \<Rightarrow> None | Some d \<Rightarrow> last_event d));
                          s3 = gui_sink s2 (LogLine t (''  [INCIDENT] '' @ fmt L nm @ '' offline''));
                          s4 = s3\<lparr>notifier :=
                                   show_gui (notifier s3) title_offline
                                     (JStr (fmt L nm @ '' nie odpowiada.'')) (Some (''off_'' @ fmt L sn)) t\<rparr>
                      in log_add s4 t nm ''incident'' (JStr ''Device offline'') sn)
                   else (None, s))
                else (None, s))
         else (Some TypeError, s))
      else (None, s))"

text \<open>The block \<open>if sn:\<close> of a device update.\<close>

definition update_device ::
  "pylib \<Rightarrow> monitor_logic \<Rightarrow> json \<Rightarrow> json \<Rightarrow> bool option \<Rightarrow> real \<Rightarrow> error option \<times> monitor_logic" where
  "update_device L s sn nm hint t =
     (if hashable sn then
        (let k = dict_key sn;
             dev = (case devices s k of
                      Some d \<Rightarrow> d
                    | None \<Rightarrow> \<lparr>name = nm, online = None, last_event = None\<rparr>)\<lparr>name := nm\<rparr>;
             s1 = s\<lparr>devices := (devices s)(k \<mapsto> dev)\<rparr>
         in case hint of
              None \<Rightarrow> (None, gui_sink s1 (DeviceUpdate sn nm (online dev) (last_event dev)))
            | Some b \<Rightarrow>
                and_then
                  (if b \<and> online dev \<noteq> Some True then
                     log_add
                       (s1\<lparr>notifier :=
                             show_gui (notifier s1) title_recovered
                               (JStr (fmt L nm @ '' online'')) (Some (''rec_'' @ fmt L sn)) t\<rparr>)
                       t nm ''recovery'' (JStr ''Device reachable'') sn
                   else (None, s1))
                  (\<lambda>s2.
                     let dev' = dev\<lparr>online := Some b\<rparr>;
                         s3 = s2\<lparr>devices := (devices s2)(k \<mapsto> dev')\<rparr>;
                         s4 = (if b then s3\<lparr>device_last_ok := (device_last_ok s3)(k \<mapsto> t)\<rparr> else s3)
                     in (None, gui_sink s4 (DeviceUpdate sn nm (online dev') (last_event dev')))))
      else (Some TypeError, s))"

text \<open>
  The branch for \<open>device\<close>, \<open>device update\<close> and \<open>property changed\<close>. Both alternatives
  of the online heuristic are booleans, so \<open>online\<close> is never \<open>None\<close> here.
\<close>

definition handle_update :: "pylib \<Rightarrow> monitor_logic \<Rightarrow> (string \<times> json) list \<Rightarrow> real \<Rightarrow> error option \<times> monitor_logic" where
  "handle_update L s evt t =
     (case upd_props evt of
        JObj props \<Rightarrow>
          and_then
            (if truthy (upd_serial evt)
             then update_device L s (upd_serial evt) (upd_name evt) (Some (online_hint props)) t
             else (None, s))
            (\<lambda>s'. maybe_flag_offline L s' (upd_serial evt) (upd_name evt) t)
      | _ \<Rightarrow> (Some AttributeError, s))"

text \<open>The branch for \<open>devices\<close> and \<open>stations\<close>: one pass of the loop for each listed device.\<close>

fun py_iter :: "json \<Rightarrow> error + json list" where
  "py_iter (JArr xs) = Inr xs"
| "py_iter (JStr cs) = Inr (map (\<lambda>c. JStr [c]) cs)"
| "py_iter (JObj kvs) = Inr (map (\<lambda>kv. JStr (fst kv)) kvs)"
| "py_iter v = Inl TypeError"

definition snap_serial :: "(string \<times> json) list \<Rightarrow> json" where
  "snap_serial d = py_or (get d ''serial_number'') (py_or (get d ''device_sn'') (get d ''station_sn''))"

definition snap_name :: "(string \<times> json) list \<Rightarrow> json" where
  "snap_name d =
     py_or (get d ''name'') (py_or (get d ''device_name'') (py_or (get d ''station_name'') (snap_serial d)))"

definition snap_online :: "(string \<times> json) list \<Rightarrow> bool" where
  "snap_online d = (in_online_states (get d ''state'') \<or> truthy (get d ''online''))"

fun snapshot_devices :: "monitor_logic \<Rightarrow> json list \<Rightarrow> real \<Rightarrow> error option \<times> monitor_logic" where
  "snapshot_devices s [] t = (None, s)"
| "snapshot_devices s (JObj d # ds) t =
     (if hashable (snap_serial d) then
        (let k = dict_key (snap_serial d);
             s1 = s\<lparr>devices := (devices s)(k \<mapsto> \<lparr>name = snap_name d, online = Some (snap_online d), last_event = None\<rparr>)\<rparr>;
             s2 = (if snap_online d then s1\<lparr>device_last_ok := (device_last_ok s1)(k \<mapsto> t)\<rparr> else s1)
         in snapshot_devices
              (gui_sink s2 (DeviceUpdate (snap_serial d) (snap_name d) (Some (snap_online d)) None)) ds t)
      else (Some TypeError, s))"
| "snapshot_devices s (v # ds) t = (Some AttributeError, s)"

definition handle_devices :: "monitor_logic \<Rightarrow> (string \<times> json) list \<Rightarrow> real \<Rightarrow> error option \<times> monitor_logic" where
  "handle_devices s evt t =
     (case py_iter (py_or (get evt ''data'') (JArr [])) of
        Inl e \<Rightarrow> (Some e, s)
      | Inr arr \<Rightarrow> snapshot_devices s arr t)"

text \<open>
  The branch for \<open>event\<close>, \<open>station event\<close> and \<open>device event\<close>.
  \<open>text = evt.get("message") or (evt.get("data") or {}).get("message") or ""\<close>.
\<close>

definition alert_text :: "(string \<times> json) list \<Rightarrow> error + json" where
  "alert_text evt =
     (if truthy (get evt ''message'') then Inr (get evt ''message'')
      else case py_or (get evt ''data'') (JObj []) of
             JObj d \<Rightarrow> Inr (py_or (get d ''message'') (JStr []))
           | _ \<Rightarrow> Inl AttributeError)"

definition touch_device ::
  "pylib \<Rightarrow> monitor_logic \<Rightarrow> json \<Rightarrow> json \<Rightarrow> json \<Rightarrow> json \<Rightarrow> real \<Rightarrow> error option \<times> monitor_logic" where
  "touch_device L s sn nm action txt t =
     (if hashable sn then
        (let k = dict_key sn;
             dev = (case devices s k of
                      Some d \<Rightarrow> d
                    | None \<Rightarrow> \<lparr>name = nm, online = Some True, last_event = None\<rparr>)
                   \<lparr>last_event := Some (take 120 (fmt L action @ '': '' @ fmt L txt))\<rparr>;
             s1 = s\<lparr>devices := (devices s)(k \<mapsto> dev), device_last_ok := (device_last_ok s)(k \<mapsto> t)\<rparr>
         in (None, gui_sink s1 (DeviceUpdate sn (name dev) (online dev) (last_event dev))))
      else (Some TypeError, s))"

definition handle_alert :: "pylib \<Rightarrow> monitor_logic \<Rightarrow> (string \<times> json) list \<Rightarrow> real \<Rightarrow> error option \<times> monitor_logic" where
  "handle_alert L s evt t =
     (case alert_text evt of
        Inl e \<Rightarrow> (Some e, s)
      | Inr txt \<Rightarrow>
          (let nm = alert_name evt;
               action = alert_action evt;
               sn = py_or (get evt ''device_sn'') (py_or (get evt ''serial_number'') JNull)
           in and_then
                (if truthy sn then touch_device L s sn nm action txt t else (None, s))
                (\<lambda>s1.
                   let s2 = gui_sink s1
                              (LogLine t (''  ['' @ fmt L nm @ ''] '' @ fmt L action @ '' '' @ em_dash @ '' '' @ fmt L txt));
                       s3 = s2\<lparr>notifier :=
                                show_gui (notifier s2) (''Eufy: '' @ fmt L action)
                                  (JStr (fmt L nm @ '': '' @ fmt L txt))
                                  (Some (''evt_'' @ fmt L nm @ ''_'' @ fmt L action)) t\<rparr>
                   in log_add s3 t nm ''alert'' action txt)))"

text \<open>The branch for \<open>error\<close>, \<open>station error\<close> and \<open>device error\<close>.\<close>

definition handle_error :: "pylib \<Rightarrow> monitor_logic \<Rightarrow> (string \<times> json) list \<Rightarrow> real \<Rightarrow> error option \<times> monitor_logic" where
  "handle_error L s evt t =
     (let src = alert_name evt;
          msg = error_msg L evt;
          s1 = gui_sink s (LogLine t (''  [ERROR] '' @ fmt L src @ '': '' @ fmt L msg));
          s2 = s1\<lparr>notifier := show_gui (notifier s1) title_error msg (Some (''err_'' @ fmt L src)) t\<rparr>
      in log_add s2 t src ''error'' (JStr ''Error'') msg)"

text \<open>
  \<open>MonitorLogic.handle(kind, payload)\<close>. \<open>evt.get\<close> raises \<open>AttributeError\<close> when the
  payload is no dict, and so does \<open>.lower()\<close> when the type is present and no string.
\<close>

definition handle :: "pylib \<Rightarrow> monitor_logic \<Rightarrow> string \<Rightarrow> json \<Rightarrow> real \<Rightarrow> error option \<times> monitor_logic" where
  "handle L s kind payload t =
     (if kind = ''conn'' then (None, gui_sink s (Conn payload))
      else if kind = ''event'' then
        (case payload of
           JObj evt \<Rightarrow>
             (case (case map_of evt ''type'' of None \<Rightarrow> JStr [] | Some v \<Rightarrow> v) of
                JStr ty \<Rightarrow>
                  if lower ty \<in> {''devices'', ''stations''} then handle_devices s evt t
                  else if lower ty \<in> {''device'', ''device update'', ''property changed''}
                    then handle_update L s evt t
                  else if lower ty \<in> {''event'', ''station event'', ''device event''}
                    then handle_alert L s evt t
                  else if lower ty \<in> {''error'', ''station error'', ''device error''}
                    then handle_error L s evt t
                  else (None, s)
              | _ \<Rightarrow> (Some AttributeError, s))
         | _ \<Rightarrow> (Some AttributeError, s))
      else (None, s))"


text \<open>The same monitor with a database that accepts every row.\<close>

definition db_up :: "'m eufy_monitor_scheme \<Rightarrow> 'm eufy_monitor_scheme" where
  "db_up s = s\<lparr>log_db := (log_db s)\<lparr>accepts := (\<lambda>r. True)\<rparr>\<rparr>"

section \<open>EufyMonitor: the headless monitor\<close>

text \<open>\<open>text = evt.get("message") or evt.get("data", {}).get("message") or ""\<close>.\<close>

definition ws_alert_text :: "(string \<times> json) list \<Rightarrow> error + json" where
  "ws_alert_text evt =
     (if truthy (get evt ''message'') then Inr (get evt ''message'')
      else case (case map_of evt ''data'' of None \<Rightarrow> JObj [] | Some v \<Rightarrow> v) of
             JObj d \<Rightarrow> Inr (py_or (get d ''message'') (JStr []))
           | _ \<Rightarrow> Inl AttributeError)"

definition ws_alert :: "pylib \<Rightarrow> eufy_monitor \<Rightarrow> (string \<times> json) list \<Rightarrow> real \<Rightarrow> error option \<times> eufy_monitor" where
  "ws_alert L s evt t =
     (case ws_alert_text evt of
        Inl e \<Rightarrow> (Some e, s)
      | Inr txt \<Rightarrow>
          log_add
            (s\<lparr>notifier :=
                 show_ws (notifier s) (''Eufy: '' @ fmt L (alert_action evt))
                   (JStr (fmt L (alert_name evt) @ '': '' @ fmt L txt))
                   (Some (''evt_'' @ fmt L (alert_name evt) @ ''_'' @ fmt L (alert_action evt))) t\<rparr>)
            t (alert_name evt) ''alert'' (alert_action evt) txt)"

text \<open>
  A device update. With no entry in \<open>device_last_ok\<close> the device counts as last seen
  24 hours (86400 seconds) ago.
\<close>

definition ws_update :: "pylib \<Rightarrow> eufy_monitor \<Rightarrow> (string \<times> json) list \<Rightarrow> real \<Rightarrow> error option \<times> eufy_monitor" where
  "ws_update L s evt t =
     (case upd_props evt of
        JObj props \<Rightarrow>
          if online_hint props then
            (if hashable (upd_serial evt)
             then (None, s\<lparr>device_last_ok := (device_last_ok s)(dict_key (upd_serial evt) \<mapsto> t)\<rparr>)
             else (Some TypeError, s))
          else
            (if hashable (upd_serial evt) then
               (let last_ok = (case device_last_ok s (dict_key (upd_serial evt)) of
                                 Some t0 \<Rightarrow> t0
                               | None \<Rightarrow> t - 86400)
                in if t - last_ok > offline_grace_seconds s then
                     log_add
                       (s\<lparr>notifier :=
                            show_ws (notifier s) title_offline
                              (JStr (fmt L (upd_name evt) @ '' nie odpowiada.''))
                              (Some (''off_'' @ fmt L (upd_serial evt))) t\<rparr>)
                       t (upd_name evt) ''incident'' (JStr ''Device offline'') (JStr (dumps L (JObj props)))
                   else (None, s))
             else (Some TypeError, s))
      | _ \<Rightarrow> (Some AttributeError, s))"

definition ws_error :: "pylib \<Rightarrow> eufy_monitor \<Rightarrow> (string \<times> json) list \<Rightarrow> real \<Rightarrow> error option \<times> eufy_monitor" where
  "ws_error L s evt t =
     log_add
       (s\<lparr>notifier :=
            show_ws (notifier s) title_error (error_msg L evt) (Some (''err_'' @ fmt L (alert_name evt))) t\<rparr>)
       t (alert_name evt) ''error'' (JStr ''Error'') (error_msg L evt)"

text \<open>
  \<open>EufyMonitor.handle_event(evt)\<close>: three tests in sequence, on the type as it is
  written in the message.
\<close>

definition handle_event :: "pylib \<Rightarrow> eufy_monitor \<Rightarrow> json \<Rightarrow> real \<Rightarrow> error option \<times> eufy_monitor" where
  "handle_event L s payload t =
     (case payload of
        JObj evt \<Rightarrow>
          and_then
            (and_then
               (if get evt ''type'' \<in> {JStr ''event'', JStr ''station event'', JStr ''device event''}
                then ws_alert L s evt t else (None, s))
               (\<lambda>s1.
                  if get evt ''type'' \<in> {JStr ''device'', JStr ''device update'', JStr ''property changed''}
                  then ws_update L s1 evt t else (None, s1)))
            (\<lambda>s2.
               if get evt ''type'' \<in> {JStr ''error'', JStr ''station error'', JStr ''device error''}
               then ws_error L s2 evt t else (None, s2))
      | _ \<Rightarrow> (Some AttributeError, s))"

section \<open>The WebSocket clients\<close>

text \<open>
  What one pass of the reconnect loop meets: whether \<open>websockets.connect\<close> raises, whether
  the i-th \<open>send\<close> raises, the frames received (with the time of arrival; \<open>None\<close> for a
  frame \<open>json.loads\<close> rejects), and whether the connection ends with an exception. An
  exception is given by its text.
\<close>

record attempt =
  connect_fails :: "string option"
  send_fails :: "nat \<Rightarrow> string option"
  inbound :: "(real \<times> json option) list"
  closes_with :: "string option"

datatype action = Send json | Put string json | Sleep real

definition command :: "string \<Rightarrow> json" where
  "command c = JObj [(''command'', JStr c)]"

definition disconnected :: "string \<Rightarrow> action list" where
  "disconnected e =
     [Put ''conn'' (JObj [(''status'', JStr ''disconnected''), (''error'', JStr e)]), Sleep 5]"

fun put_events :: "(real \<times> json option) list \<Rightarrow> action list" where
  "put_events [] = []"
| "put_events ((t, None) # fs) = put_events fs"
| "put_events ((t, Some evt) # fs) = Put ''event'' evt # put_events fs"

text \<open>One pass of the loop of \<open>WSClient.run\<close> (desktop): what is sent and queued, in order.\<close>

definition connect_once :: "attempt \<Rightarrow> action list" where
  "connect_once a =
     (case connect_fails a of
        Some e \<Rightarrow> disconnected e
      | None \<Rightarrow>
          (case send_fails a 0 of
             Some e \<Rightarrow> disconnected e
           | None \<Rightarrow>
               Send (command ''initialize'') #
               (case send_fails a 1 of
                  Some e \<Rightarrow> disconnected e
                | None \<Rightarrow>
                    Send (command ''get_devices'') #
                    (case send_fails a 2 of
                       Some e \<Rightarrow> disconnected e
                     | None \<Rightarrow>
                         Send (command ''get_stations'') #
                         Put ''conn'' (JObj [(''status'', JStr ''connected'')]) #
                         put_events (inbound a) @
                         (case closes_with a of None \<Rightarrow> [] | Some e \<Rightarrow> disconnected e)))))"

text \<open>
  \<open>WSClient.run\<close>: the passes made until \<open>stop()\<close> is seen, one for each element of the
  list.
\<close>

fun run :: "attempt list \<Rightarrow> action list" where
  "run [] = []"
| "run (a # as) = connect_once a @ run as"

text \<open>
  One pass of the loop of \<open>EufyClient.run\<close> (headless): every decoded frame goes to
  \<open>handle_event\<close>, and an exception raised there ends the pass like any other. The
  loop has no status to report and no stop flag.
\<close>

fun on_events :: "pylib \<Rightarrow> eufy_monitor \<Rightarrow> (real \<times> json option) list \<Rightarrow> error option \<times> eufy_monitor" where
  "on_events L s [] = (None, s)"
| "on_events L s ((t, None) # fs) = on_events L s fs"
| "on_events L s ((t, Some evt) # fs) = and_then (handle_event L s evt t) (\<lambda>s'. on_events L s' fs)"

definition client_once :: "pylib \<Rightarrow> eufy_monitor \<Rightarrow> attempt \<Rightarrow> action list \<times> eufy_monitor" where
  "client_once L s a =
     (if connect_fails a \<noteq> None then ([Sleep 5], s)
      else if send_fails a 0 \<noteq> None then ([Sleep 5], s)
      else if send_fails a 1 \<noteq> None then ([Send (command ''initialize''), Sleep 5], s)
      else if send_fails a 2 \<noteq> None
        then ([Send (command ''initialize''), Send (command ''get_devices''), Sleep 5], s)
      else
        (case on_events L s (inbound a) of
           (Some e, s') \<Rightarrow>
             ([Send (command ''initialize''), Send (command ''get_devices''),
               Send (command ''get_stations''), Sleep 5], s')
         | (None, s') \<Rightarrow>
             ([Send (command ''initialize''), Send (command ''get_devices''),
               Send (command ''get_stations'')]
              @ (case closes_with a of None \<Rightarrow> [] | Some e \<Rightarrow> [Sleep 5]), s')))"

fun is_send :: "action \<Rightarrow> bool" where
  "is_send (Send j) = True"
| "is_send a = False"

section \<open>Values used in the examples\<close>

definition lib0 :: pylib where
  "lib0 = \<lparr>str_of = (\<lambda>v. ''?''), dumps = (\<lambda>v. ''?'')\<rparr>"

definition notifier0 :: notifier where
  "notifier0 = \<lparr>cooldown = 90, last' = Map.empty, notify_calls = [], backend_raises = False, printed = []\<rparr>"

text \<open>
  A desktop monitor with a grace period of 60 seconds that knows one device, \<open>S1\<close>,
  online and last seen at time 1000; and a headless monitor that has seen the same.
\<close>

definition log0 :: incident_log where
  "log0 = \<lparr>rows = [], accepts = (\<lambda>r. True)\<rparr>"

definition monitor0 :: monitor_logic where
  "monitor0 =
     \<lparr>offline_grace_seconds = 60, notifier = notifier0, log_db = log0,
      device_last_ok = [JStr ''S1'' \<mapsto> 1000],
      devices = [JStr ''S1'' \<mapsto> \<lparr>name = JStr ''Cam1'', online = Some True, last_event = None\<rparr>],
      gui = []\<rparr>"

definition eufy0 :: eufy_monitor where
  "eufy0 =
     \<lparr>offline_grace_seconds = 60, notifier = notifier0, log_db = log0,
      device_last_ok = [JStr ''S1'' \<mapsto> 1000]\<rparr>"

text \<open>\<open>{"type": "device update", "device_sn": "S1", "data": {"online": b}}\<close>\<close>

definition update_msg :: "bool \<Rightarrow> (string \<times> json) list" where
  "update_msg b =
     [(''type'', JStr ''device update''), (''device_sn'', JStr ''S1''), (''data'', JObj [(''online'', JBool b)])]"

text \<open>The same monitors with a database that rejects every row.\<close>

definition monitor_down :: monitor_logic where
  "monitor_down = monitor0\<lparr>log_db := \<lparr>rows = [], accepts = (\<lambda>r. False)\<rparr>\<rparr>"

definition eufy_down :: eufy_monitor where
  "eufy_down = eufy0\<lparr>log_db := \<lparr>rows = [], accepts = (\<lambda>r. False)\<rparr>\<rparr>"

text \<open>
  \<open>{"type": "device", "serial_number": "A", "device_sn": "B", "data": {"online": true}}\<close>
  and \<open>{"type": "device", "station_sn": "ST", "data": {"online": true}}\<close>
\<close>

definition both_serials :: "(string \<times> json) list" where
  "both_serials =
     [(''type'', JStr ''device''), (''serial_number'', JStr ''A''), (''device_sn'', JStr ''B''),
      (''data'', JObj [(''online'', JBool True)])]"

definition station_only :: "(string \<times> json) list" where
  "station_only =
     [(''type'', JStr ''device''), (''station_sn'', JStr ''ST''), (''data'', JObj [(''online'', JBool True)])]"

text \<open>
  \<open>{"type": "EVENT", "device_name": "Cam1", "message": "motion"}\<close> and the same
  message with the type in lower case.
\<close>

definition shout :: "(string \<times> json) list" where
  "shout = [(''type'', JStr ''EVENT''), (''device_name'', JStr ''Cam1''), (''message'', JStr ''motion'')]"

definition quiet :: "(string \<times> json) list" where
  "quiet = [(''type'', JStr ''event''), (''device_name'', JStr ''Cam1''), (''message'', JStr ''motion'')]"

text \<open>
  A connection on which every send succeeds: a heartbeat arrives, then a frame that is
  no JSON, then the connection breaks.
\<close>

definition attempt0 :: attempt where
  "attempt0 =
     \<lparr>connect_fails = None, send_fails = (\<lambda>i. None),
      inbound = [(1, Some (JObj [(''type'', JStr ''heartbeat'')])), (2, None)],
      closes_with = Some ''closed''\<rparr>"

text \<open>A connection on which two alerts arrive and which then closes in good order.\<close>

definition attempt1 :: attempt where
  "attempt1 =
     \<lparr>connect_fails = None, send_fails = (\<lambda>i. None),
      inbound = [(7, Some (JObj quiet)), (8, Some (JObj quiet))],
      closes_with = None\<rparr>"

section \<open>Evaluating the examples\<close>

lemmas msg_defs = upd_serial_def upd_name_def upd_props_def online_hint_def in_online_states_def
  py_or_def get_def lower_def lower_char_def update_msg_def both_serials_def station_only_def
  shout_def quiet_def alert_name_def alert_action_def alert_text_def ws_alert_text_def error_msg_def
  snap_serial_def

lemmas state_defs = monitor0_def eufy0_def notifier0_def log0_def lib0_def monitor_down_def eufy_down_def

lemmas ws_defs = handle_event_def ws_update_def ws_alert_def ws_error_def
  show_ws_def suppressed_def remember_def fmt_def

lemma lower_EVENT: "lower ''EVENT'' = ''event''"
  by code_simp

lemmas gui_defs = handle_def handle_update_def update_device_def maybe_flag_offline_def
  gui_sink_def log_add_def add_def Let_def

section \<open>The cooldown of the notifier\<close>

text \<open>
  Claim C4. \<open>Notifier.show\<close> is the alert gate, in both programs. For every key (a key
  is a non-empty string: Python reads the empty string as no key): a call for a key with
  no entry in \<open>last'\<close>, so the first one, reaches the backend and records its time; a
  later call is dropped, and changes nothing, when less than the cooldown has passed since
  the recorded time, and otherwise reaches the backend and records its time. With a
  cooldown of 90, calls at 0 and 50 give (fired, not fired), and calls at 0 and 91 give
  (fired, fired).
\<close>

theorem show_cooldown:
  assumes "key \<noteq> []" and "sh = show_gui \<or> sh = show_ws"
  shows "(last' n key = None \<longrightarrow>
            fired n (sh n a m (Some key) t) \<and> last' (sh n a m (Some key) t) key = Some t)
       \<and> (\<forall>t0. last' n key = Some t0 \<longrightarrow>
            (t - t0 < cooldown n \<longrightarrow> sh n a m (Some key) t = n)
          \<and> (cooldown n \<le> t - t0 \<longrightarrow>
                fired n (sh n a m (Some key) t) \<and> last' (sh n a m (Some key) t) key = Some t))
       \<and> (cooldown n = 90 \<longrightarrow> last' n key = None \<longrightarrow>
            fired n (sh n a m (Some key) 0)
          \<and> \<not> fired (sh n a m (Some key) 0) (sh (sh n a m (Some key) 0) a m (Some key) 50)
          \<and> fired (sh n a m (Some key) 0) (sh (sh n a m (Some key) 0) a m (Some key) 91))"
  using assms
  by (cases "backend_raises n")
     (auto simp add: show_gui_def show_ws_def suppressed_def remember_def fired_def Let_def)

theorem show_cooldown_witness:
  "fired notifier0 (show_gui notifier0 ''a'' (JStr ''m'') (Some ''k'') 0)
   \<and> \<not> fired (show_gui notifier0 ''a'' (JStr ''m'') (Some ''k'') 0)
        (show_gui (show_gui notifier0 ''a'' (JStr ''m'') (Some ''k'') 0) ''a'' (JStr ''m'') (Some ''k'') 50)
   \<and> fired (show_gui notifier0 ''a'' (JStr ''m'') (Some ''k'') 0)
        (show_gui (show_gui notifier0 ''a'' (JStr ''m'') (Some ''k'') 0) ''a'' (JStr ''m'') (Some ''k'') 91)"
  using show_cooldown [of "''k''" show_gui notifier0 "''a''" "JStr ''m''" 0]
  by (simp add: notifier0_def)

section \<open>Device updates in the desktop program\<close>







section \<open>Recovery\<close>





section \<open>The headless monitor and a device it has never seen\<close>

lemma and_then_return: "and_then r (\<lambda>s. (None, s)) = r"
proof (cases r)
  case (Pair e s)
  then show ?thesis by (cases e) simp_all
qed

lemma handle_event_is_update:
  assumes "get evt ''type'' \<in> {JStr ''device'', JStr ''device update'', JStr ''property changed''}"
  shows "handle_event L s (JObj evt) t = ws_update L s evt t"
  using assms by (auto simp add: handle_event_def and_then_return)

lemma show_ws_fresh:
  assumes "last' n k = None"
  shows "fired n (show_ws n a m (Some k) t)"
  using assms
  by (simp add: show_ws_def suppressed_def remember_def fired_def Let_def)

text \<open>
  Claim C10. In the headless monitor, a device update with a false online hint for a
  serial with no entry in \<open>device_last_ok\<close> counts the device as last seen 86400 seconds
  ago: whenever the grace period is below 86400, the update writes a \<open>Device offline\<close>
  incident and hands the offline notification to the notifier, which delivers it when its
  key has not been notified before. The database accepts the row.
\<close>

theorem never_seen_flagged:
  assumes "get evt ''type'' \<in> {JStr ''device'', JStr ''device update'', JStr ''property changed''}"
    and "hashable (upd_serial evt)"
    and "upd_props evt = JObj props" and "\<not> online_hint props"
    and "device_last_ok s (dict_key (upd_serial evt)) = None"
    and "offline_grace_seconds s < 86400"
    and "accepts (log_db s)
           \<lparr>ts = t, source = upd_name evt, type' = ''incident'', title = JStr ''Device offline'',
            details = JStr (dumps L (JObj props))\<rparr>"
  shows "\<exists>s'. handle_event L s (JObj evt) t = (None, s')
     \<and> rows (log_db s') = rows (log_db s) @
          [\<lparr>ts = t, source = upd_name evt, type' = ''incident'', title = JStr ''Device offline'',
            details = JStr (dumps L (JObj props))\<rparr>]
     \<and> notifier s' = show_ws (notifier s) title_offline (JStr (fmt L (upd_name evt) @ '' nie odpowiada.''))
                        (Some (''off_'' @ fmt L (upd_serial evt))) t
     \<and> (last' (notifier s) (''off_'' @ fmt L (upd_serial evt)) = None \<longrightarrow> fired (notifier s) (notifier s'))
     \<and> device_last_ok s' = device_last_ok s"
proof -
  have "handle_event L s (JObj evt) t = ws_update L s evt t"
    using assms(1) by (rule handle_event_is_update)
  then show ?thesis
    using assms(2-7)
    by (simp add: ws_update_def log_add_def add_def Let_def show_ws_fresh)
qed

theorem never_seen_flagged_witness:
  "\<exists>s'. handle_event lib0 (eufy0\<lparr>device_last_ok := Map.empty\<rparr>) (JObj (update_msg False)) 5 = (None, s')
     \<and> rows (log_db s') =
          [\<lparr>ts = 5, source = JStr ''S1'', type' = ''incident'', title = JStr ''Device offline'',
            details = JStr ''?''\<rparr>]
     \<and> notify_calls (notifier s') = [(title_offline, JStr ''S1 nie odpowiada.'')]"
  using never_seen_flagged [of "update_msg False" "[(''online'', JBool False)]"
      "eufy0\<lparr>device_last_ok := Map.empty\<rparr>" 5 lib0]
  by (fastforce simp add: msg_defs state_defs fmt_def show_ws_def suppressed_def remember_def fired_def)

section \<open>The handshake\<close>

lemma put_events_no_send: "filter is_send (put_events fs) = []"
  by (induction fs rule: put_events.induct) simp_all

text \<open>
  Claim C9. On a connection on which the three sends succeed, the desktop client sends
  \<open>initialize\<close>, \<open>get_devices\<close> and \<open>get_stations\<close> in that order and nothing else,
  queues the status \<open>connected\<close> right after the third send, and only then queues the
  received events. The headless client sends the same three messages first and nothing
  else (it has no status to report).
\<close>

theorem handshake_then_connected:
  assumes "connect_fails a = None"
    and "send_fails a 0 = None" and "send_fails a 1 = None" and "send_fails a 2 = None"
  shows "connect_once a =
           [Send (command ''initialize''), Send (command ''get_devices''), Send (command ''get_stations''),
            Put ''conn'' (JObj [(''status'', JStr ''connected'')])]
           @ put_events (inbound a)
           @ (case closes_with a of None \<Rightarrow> [] | Some e \<Rightarrow> disconnected e)
       \<and> filter is_send (connect_once a) =
           [Send (command ''initialize''), Send (command ''get_devices''), Send (command ''get_stations'')]
       \<and> take 3 (fst (client_once L s a)) =
           [Send (command ''initialize''), Send (command ''get_devices''), Send (command ''get_stations'')]
       \<and> filter is_send (fst (client_once L s a)) =
           [Send (command ''initialize''), Send (command ''get_devices''), Send (command ''get_stations'')]"
  using assms
  by (auto simp add: connect_once_def client_once_def put_events_no_send disconnected_def
        split: option.splits prod.splits)

theorem handshake_then_connected_witness:
  "connect_once attempt0 =
     [Send (JObj [(''command'', JStr ''initialize'')]), Send (JObj [(''command'', JStr ''get_devices'')]),
      Send (JObj [(''command'', JStr ''get_stations'')]),
      Put ''conn'' (JObj [(''status'', JStr ''connected'')]),
      Put ''event'' (JObj [(''type'', JStr ''heartbeat'')]),
      Put ''conn'' (JObj [(''status'', JStr ''disconnected''), (''error'', JStr ''closed'')]),
      Sleep 5]
   \<and> take 3 (fst (client_once lib0 eufy0 attempt0)) =
     [Send (JObj [(''command'', JStr ''initialize'')]), Send (JObj [(''command'', JStr ''get_devices'')]),
      Send (JObj [(''command'', JStr ''get_stations'')])]"
  using handshake_then_connected [of attempt0 lib0 eufy0]
  by (simp add: attempt0_def command_def disconnected_def)

section \<open>Which field gives the serial of a device update\<close>









section \<open>The type of a message\<close>

lemma lower_char_idem: "lower_char (lower_char c) = lower_char c"
  by (simp add: lower_char_def)

lemma lower_idem: "lower (lower s) = lower s"
  by (simp add: lower_def lower_char_idem)

lemma handle_dispatch:
  assumes "map_of evt ''type'' = Some (JStr ty)"
  shows "handle L s ''event'' (JObj evt) t =
     (if lower ty \<in> {''devices'', ''stations''} then handle_devices s evt t
      else if lower ty \<in> {''device'', ''device update'', ''property changed''} then handle_update L s evt t
      else if lower ty \<in> {''event'', ''station event'', ''device event''} then handle_alert L s evt t
      else if lower ty \<in> {''error'', ''station error'', ''device error''} then handle_error L s evt t
      else (None, s))"
  using assms by (simp add: handle_def)

text \<open>
  Claim C8, as amended. The desktop program reads the type without regard to letter case:
  a message whose type is a recognised kind up to the case of its letters is processed by
  the same branch (snapshot, device update, alert or error) as the message with the type
  in lower case. The headless monitor compares the type as it is written: a message
  whose type is none of its nine kinds letter for letter is ignored there, whatever its
  lower-case form is.
\<close>

theorem type_case_insensitive:
  assumes "map_of evt ''type'' = Some (JStr ty)"
    and "map_of evt' ''type'' = Some (JStr (lower ty))"
  shows "(lower ty \<in> {''devices'', ''stations''} \<longrightarrow>
            handle L s ''event'' (JObj evt) t = handle_devices s evt t
          \<and> handle L s ''event'' (JObj evt') t = handle_devices s evt' t)
       \<and> (lower ty \<in> {''device'', ''device update'', ''property changed''} \<longrightarrow>
            handle L s ''event'' (JObj evt) t = handle_update L s evt t
          \<and> handle L s ''event'' (JObj evt') t = handle_update L s evt' t)
       \<and> (lower ty \<in> {''event'', ''station event'', ''device event''} \<longrightarrow>
            handle L s ''event'' (JObj evt) t = handle_alert L s evt t
          \<and> handle L s ''event'' (JObj evt') t = handle_alert L s evt' t)
       \<and> (lower ty \<in> {''error'', ''station error'', ''device error''} \<longrightarrow>
            handle L s ''event'' (JObj evt) t = handle_error L s evt t
          \<and> handle L s ''event'' (JObj evt') t = handle_error L s evt' t)
       \<and> (JStr ty \<notin> {JStr ''event'', JStr ''station event'', JStr ''device event'',
                      JStr ''device'', JStr ''device update'', JStr ''property changed'',
                      JStr ''error'', JStr ''station error'', JStr ''device error''} \<longrightarrow>
            handle_event L w (JObj evt) t = (None, w))"
proof -
  have "get evt ''type'' = JStr ty"
    using assms(1) by (simp add: get_def)
  then have ws: "JStr ty \<notin> {JStr ''event'', JStr ''station event'', JStr ''device event'',
                      JStr ''device'', JStr ''device update'', JStr ''property changed'',
                      JStr ''error'', JStr ''station error'', JStr ''device error''} \<longrightarrow>
            handle_event L w (JObj evt) t = (None, w)"
    by (simp add: handle_event_def)
  show ?thesis
    unfolding handle_dispatch [OF assms(1)] handle_dispatch [OF assms(2)] lower_idem
    using ws by auto
qed

theorem type_case_insensitive_witness:
  "handle lib0 monitor0 ''event'' (JObj shout) 7 = handle_alert lib0 monitor0 shout 7
   \<and> handle lib0 monitor0 ''event'' (JObj quiet) 7 = handle_alert lib0 monitor0 quiet 7
   \<and> handle_event lib0 eufy0 (JObj shout) 7 = (None, eufy0)"
  using type_case_insensitive [of shout "''EVENT''" quiet lib0 monitor0 7 eufy0]
  by (simp add: shout_def quiet_def lower_EVENT)

text \<open>
  Claim C8 as stated fails in the headless monitor: the alert with type \<open>event\<close> is
  logged, the same alert with type \<open>EVENT\<close> is ignored.
\<close>

theorem type_case_sensitive_counterexample:
  "rows (log_db (snd (handle_event lib0 eufy0 (JObj quiet) 7))) =
     [\<lparr>ts = 7, source = JStr ''Cam1'', type' = ''alert'', title = JStr ''event'', details = JStr ''motion''\<rparr>]
   \<and> handle_event lib0 eufy0 (JObj shout) 7 = (None, eufy0)"
  by (simp add: msg_defs state_defs ws_defs log_add_def add_def Let_def)

text \<open>
  A message of the desktop program with no type, or with a type that is a string and no
  recognised kind, changes nothing and raises nothing.
\<close>

lemma unrecognised_discarded:
  assumes "map_of evt ''type'' = None \<or>
           (\<exists>ty. map_of evt ''type'' = Some (JStr ty) \<and>
              lower ty \<notin> {''devices'', ''stations'', ''device'', ''device update'', ''property changed'',
                           ''event'', ''station event'', ''device event'',
                           ''error'', ''station error'', ''device error''})"
  shows "handle L s ''event'' (JObj evt) t = (None, s)"
  using assms by (auto simp add: handle_def lower_def)

text \<open>
  Claim C6 at a concrete input. In the desktop program the message \<open>{"type": null}\<close>,
  which has no usable type, raises \<open>AttributeError\<close> (\<open>None\<close> has no \<open>lower\<close>), where
  \<open>{"type": "heartbeat"}\<close> and \<open>{}\<close> are dropped in silence. The headless monitor drops
  \<open>{"type": null}\<close> in silence.
\<close>

theorem null_type_raises:
  "handle lib0 monitor0 ''event'' (JObj [(''type'', JNull)]) 7 = (Some AttributeError, monitor0)
   \<and> handle lib0 monitor0 ''event'' (JObj [(''type'', JStr ''heartbeat'')]) 7 = (None, monitor0)
   \<and> handle lib0 monitor0 ''event'' (JObj []) 7 = (None, monitor0)
   \<and> handle_event lib0 eufy0 (JObj [(''type'', JNull)]) 7 = (None, eufy0)"
  by (simp add: handle_def handle_event_def msg_defs)

section \<open>A database that rejects the append\<close>

text \<open>The snapshot branch writes no incident.\<close>

lemma snapshot_devices_log:
  "fst (snapshot_devices s ds t) \<noteq> Some DatabaseError \<and> log_db (snd (snapshot_devices s ds t)) = log_db s"
  by (induction s ds t rule: snapshot_devices.induct) (simp_all add: Let_def gui_sink_def)

lemma py_iter_error: "py_iter v = Inl e \<Longrightarrow> e = TypeError"
  by (cases v) auto

lemma alert_text_error: "alert_text evt = Inl e \<Longrightarrow> e = AttributeError"
  by (auto simp add: alert_text_def split: if_splits json.splits)

lemma ws_alert_text_error: "ws_alert_text evt = Inl e \<Longrightarrow> e = AttributeError"
  by (auto simp add: ws_alert_text_def split: if_splits json.splits option.splits)

lemma handle_devices_log:
  "fst (handle_devices s evt t) \<noteq> Some DatabaseError \<and> log_db (snd (handle_devices s evt t)) = log_db s"
  by (auto simp add: handle_devices_def snapshot_devices_log split: sum.splits dest: py_iter_error)

text \<open>
  Each other branch, run against a database that rejects every row: it raises the database
  error exactly when the same run against a database that accepts every row writes a
  row, and it writes none.
\<close>

lemma handle_error_down:
  assumes "\<forall>r. \<not> accepts (log_db s) r"
  shows "fst (handle_error L s evt t) = Some DatabaseError
       \<and> rows (log_db (snd (handle_error L (db_up s) evt t))) \<noteq> rows (log_db s)
       \<and> rows (log_db (snd (handle_error L s evt t))) = rows (log_db s)"
  using assms by (simp add: handle_error_def db_up_def log_add_def add_def Let_def gui_sink_def)

lemma handle_alert_down:
  assumes "\<forall>r. \<not> accepts (log_db s) r"
  shows "(fst (handle_alert L s evt t) = Some DatabaseError)
           = (rows (log_db (snd (handle_alert L (db_up s) evt t))) \<noteq> rows (log_db s))
       \<and> rows (log_db (snd (handle_alert L s evt t))) = rows (log_db s)"
  using assms
  by (auto simp add: handle_alert_def touch_device_def db_up_def log_add_def add_def Let_def gui_sink_def
        split: sum.splits dest: alert_text_error)

lemma handle_update_down:
  assumes "\<forall>r. \<not> accepts (log_db s) r"
  shows "(fst (handle_update L s evt t) = Some DatabaseError)
           = (rows (log_db (snd (handle_update L (db_up s) evt t))) \<noteq> rows (log_db s))
       \<and> rows (log_db (snd (handle_update L s evt t))) = rows (log_db s)"
  using assms
  by (auto simp add: handle_update_def update_device_def maybe_flag_offline_def db_up_def log_add_def
        add_def Let_def gui_sink_def
        split: json.splits option.splits)

lemma handle_down:
  assumes "\<forall>r. \<not> accepts (log_db s) r"
  shows "(fst (handle L s kind payload t) = Some DatabaseError)
           = (rows (log_db (snd (handle L (db_up s) kind payload t))) \<noteq> rows (log_db s))
       \<and> rows (log_db (snd (handle L s kind payload t))) = rows (log_db s)"
proof -
  have up: "rows (log_db (db_up s)) = rows (log_db s)"
    by (simp add: db_up_def)
  show ?thesis
    using handle_devices_log [of s] handle_devices_log [of "db_up s"] up
      handle_update_down [OF assms] handle_alert_down [OF assms] handle_error_down [OF assms]
    by (auto simp add: handle_def gui_sink_def db_up_def split: json.splits option.splits)
qed

lemma ws_alert_down:
  assumes "\<forall>r. \<not> accepts (log_db s) r"
  shows "(fst (ws_alert L s evt t) = Some DatabaseError)
           = (rows (log_db (snd (ws_alert L (db_up s) evt t))) \<noteq> rows (log_db s))
       \<and> rows (log_db (snd (ws_alert L s evt t))) = rows (log_db s)"
  using assms
  by (auto simp add: ws_alert_def db_up_def log_add_def add_def Let_def
        split: sum.splits dest: ws_alert_text_error)

lemma ws_update_down:
  assumes "\<forall>r. \<not> accepts (log_db s) r"
  shows "(fst (ws_update L s evt t) = Some DatabaseError)
           = (rows (log_db (snd (ws_update L (db_up s) evt t))) \<noteq> rows (log_db s))
       \<and> rows (log_db (snd (ws_update L s evt t))) = rows (log_db s)"
  using assms
  by (auto simp add: ws_update_def db_up_def log_add_def add_def Let_def
        split: json.splits option.splits)

lemma ws_error_down:
  assumes "\<forall>r. \<not> accepts (log_db s) r"
  shows "fst (ws_error L s evt t) = Some DatabaseError
       \<and> rows (log_db (snd (ws_error L (db_up s) evt t))) \<noteq> rows (log_db s)
       \<and> rows (log_db (snd (ws_error L s evt t))) = rows (log_db s)"
  using assms by (simp add: ws_error_def db_up_def log_add_def add_def Let_def)

text \<open>The three tests of \<open>handle_event\<close> exclude each other.\<close>

lemma handle_event_one_branch:
  "handle_event L s (JObj evt) t =
     (if get evt ''type'' \<in> {JStr ''event'', JStr ''station event'', JStr ''device event''}
        then ws_alert L s evt t
      else if get evt ''type'' \<in> {JStr ''device'', JStr ''device update'', JStr ''property changed''}
        then ws_update L s evt t
      else if get evt ''type'' \<in> {JStr ''error'', JStr ''station error'', JStr ''device error''}
        then ws_error L s evt t
      else (None, s))"
  by (auto simp add: handle_event_def and_then_return)

lemma handle_event_down:
  assumes "\<forall>r. \<not> accepts (log_db s) r"
  shows "(fst (handle_event L s payload t) = Some DatabaseError)
           = (rows (log_db (snd (handle_event L (db_up s) payload t))) \<noteq> rows (log_db s))
       \<and> rows (log_db (snd (handle_event L s payload t))) = rows (log_db s)"
proof (cases payload)
  case (JObj evt)
  then show ?thesis
    using ws_alert_down [OF assms, of L evt t] ws_update_down [OF assms, of L evt t]
      ws_error_down [OF assms, of L evt t]
    by (simp add: handle_event_one_branch db_up_def)
qed (simp_all add: handle_event_def db_up_def)

text \<open>
  Claim C5, as amended. A failure of the append is not caught. For every event and every
  state, when the database rejects the append: the event-handling operation of either
  program raises the database error exactly if the event is one that writes an incident
  (one for which the same run, against a database that accepts, adds a row), and no row
  is written.
\<close>

theorem append_failure_propagates:
  assumes "\<forall>r. \<not> accepts (log_db s) r" and "\<forall>r. \<not> accepts (log_db w) r"
  shows "(fst (handle L s kind payload t) = Some DatabaseError)
           = (rows (log_db (snd (handle L (db_up s) kind payload t))) \<noteq> rows (log_db s))
       \<and> rows (log_db (snd (handle L s kind payload t))) = rows (log_db s)
       \<and> (fst (handle_event L w payload t) = Some DatabaseError)
           = (rows (log_db (snd (handle_event L (db_up w) payload t))) \<noteq> rows (log_db w))
       \<and> rows (log_db (snd (handle_event L w payload t))) = rows (log_db w)"
  using handle_down [OF assms(1), of L kind payload t] handle_event_down [OF assms(2), of L payload t]
  by simp

theorem append_failure_propagates_witness:
  "fst (handle lib0 monitor_down ''event'' (JObj quiet) 7) = Some DatabaseError
   \<and> rows (log_db (snd (handle lib0 monitor_down ''event'' (JObj quiet) 7))) = []
   \<and> fst (handle_event lib0 eufy_down (JObj quiet) 7) = Some DatabaseError
   \<and> rows (log_db (snd (handle_event lib0 eufy_down (JObj quiet) 7))) = []"
  using append_failure_propagates [of monitor_down eufy_down lib0 "''event''" "JObj quiet" 7]
  by (simp add: msg_defs state_defs gui_defs ws_defs handle_alert_def show_gui_def db_up_def)

text \<open>
  Claim C5 as stated fails: with a database that rejects the row, an alert makes
  \<open>handle\<close> and \<open>handle_event\<close> raise. In the headless program the exception ends the
  connection: of two alerts received, the first is notified, neither is logged, and the
  client sleeps before it connects again.
\<close>

theorem append_failure_counterexample:
  "fst (handle lib0 monitor_down ''event'' (JObj quiet) 7) = Some DatabaseError
   \<and> fst (handle_event lib0 eufy_down (JObj quiet) 7) = Some DatabaseError
   \<and> fst (client_once lib0 eufy_down attempt1) =
       [Send (command ''initialize''), Send (command ''get_devices''), Send (command ''get_stations''),
        Sleep 5]
   \<and> notify_calls (notifier (snd (client_once lib0 eufy_down attempt1))) =
       [(''Eufy: event'', JStr ''Cam1: motion'')]"
  by (simp add: msg_defs state_defs gui_defs ws_defs handle_alert_def show_gui_def client_once_def
        attempt1_def)

section \<open>The staleness check of the desktop program\<close>

text \<open>
  With a grace period that is not negative, no message makes the desktop program write a
  \<open>Device offline\<close> incident (type \<open>incident\<close>): a true hint has just set the
  last-known-good time, and a false hint has just set the device offline, which is the
  one state in which \<open>_maybe_flag_offline\<close> stays silent.
\<close>

lemma handle_update_never_flags:
  assumes "0 \<le> offline_grace_seconds s"
  shows "filter (\<lambda>r. type' r = ''incident'') (rows (log_db (snd (handle_update L s evt t))))
       = filter (\<lambda>r. type' r = ''incident'') (rows (log_db s))"
  using assms
  by (auto simp add: handle_update_def update_device_def maybe_flag_offline_def log_add_def
        add_def Let_def gui_sink_def
        split: json.splits option.splits)

lemma handle_alert_never_flags:
  "filter (\<lambda>r. type' r = ''incident'') (rows (log_db (snd (handle_alert L s evt t))))
       = filter (\<lambda>r. type' r = ''incident'') (rows (log_db s))"
  by (auto simp add: handle_alert_def touch_device_def log_add_def add_def Let_def gui_sink_def
        split: sum.splits)

lemma handle_error_never_flags:
  "filter (\<lambda>r. type' r = ''incident'') (rows (log_db (snd (handle_error L s evt t))))
       = filter (\<lambda>r. type' r = ''incident'') (rows (log_db s))"
  by (auto simp add: handle_error_def log_add_def add_def Let_def gui_sink_def)

lemma desktop_never_flags:
  assumes "0 \<le> offline_grace_seconds s"
  shows "filter (\<lambda>r. type' r = ''incident'') (rows (log_db (snd (handle L s kind payload t))))
       = filter (\<lambda>r. type' r = ''incident'') (rows (log_db s))"
  using handle_devices_log [of s] handle_update_never_flags [OF assms]
    handle_alert_never_flags [of L s] handle_error_never_flags [of L s]
  by (auto simp add: handle_def gui_sink_def split: json.splits option.splits)

text \<open>
  Claim C1 at a concrete input. The desktop monitor has a grace period of 60 and has
  \<open>S1\<close> online, last seen at 1000. An update for \<open>S1\<close> with a false hint arrives at 1061:
  \<open>handle\<close> stores the hint first, so \<open>_maybe_flag_offline\<close> finds the device offline
  already and reports nothing. No incident is written and the notifier is not called. The
  headless monitor, given the same message at the same time, writes the incident and
  notifies.
\<close>

theorem stale_update_not_flagged:
  "handle lib0 monitor0 ''event'' (JObj (update_msg False)) 1061 =
     (None, monitor0
        \<lparr>devices := [JStr ''S1'' \<mapsto> \<lparr>name = JStr ''S1'', online = Some False, last_event = None\<rparr>],
         gui := [DeviceUpdate (JStr ''S1'') (JStr ''S1'') (Some False) None]\<rparr>)
   \<and> rows (log_db (snd (handle_event lib0 eufy0 (JObj (update_msg False)) 1061))) =
       [\<lparr>ts = 1061, source = JStr ''S1'', type' = ''incident'', title = JStr ''Device offline'',
         details = JStr ''?''\<rparr>]
   \<and> notify_calls (notifier (snd (handle_event lib0 eufy0 (JObj (update_msg False)) 1061))) =
       [(title_offline, JStr ''S1 nie odpowiada.'')]"
  by (simp add: msg_defs state_defs gui_defs handle_event_def ws_update_def show_ws_def
        suppressed_def remember_def fmt_def)

end
